theory Spec2Isabelle
  imports Complex_Main "HOL-Library.Multiset"
begin

section \<open>Python values shared by the services\<close>

text \<open>
  Python floats are modelled as \<^typ>\<open>real\<close> numbers: rounding of the binary
  representation, infinities and NaN are outside the model. A Python \<open>dict\<close> is an
  association list in insertion order, since the services iterate over their dictionaries
  and the first failing key decides which exception is raised. Exceptions are values of
  the type \<open>error\<close>; a function that can raise returns \<open>error + 'a\<close>.
\<close>

datatype error =
    KeyError string
  | ZeroDivisionError
  | ValueError string
  | AttributeError string
  | TypeError string
  | LookupError string

type_synonym 'v dict = "(string \<times> 'v) list"

text \<open>\<open>d[k]\<close>: the value stored under \<open>k\<close>, or \<open>KeyError\<close>.\<close>

definition getitem :: "'v dict \<Rightarrow> string \<Rightarrow> error + 'v" where
  "getitem d k = (case map_of d k of None \<Rightarrow> Inl (KeyError k) | Some v \<Rightarrow> Inr v)"

text \<open>\<open>d[k] = v\<close>: an existing key keeps its position, a new key goes to the end.\<close>

fun setitem :: "'v dict \<Rightarrow> string \<Rightarrow> 'v \<Rightarrow> 'v dict" where
  "setitem [] k v = [(k, v)]"
| "setitem ((k', v') # d) k v = (if k' = k then (k, v) # d else (k', v') # setitem d k v)"

text \<open>
  \<open>s.replace(old, "")\<close>: the occurrences of \<open>old\<close> are removed from left to right,
  without overlap; an empty \<open>old\<close> leaves the string as it is.
\<close>

function replace_with_empty :: "string \<Rightarrow> string \<Rightarrow> string" where
  "replace_with_empty old s =
     (if old = [] \<or> s = [] then s
      else if take (length old) s = old then replace_with_empty old (drop (length old) s)
      else hd s # replace_with_empty old (tl s))"
  by pat_completeness auto
termination
  by (relation "measure (\<lambda>(old, s). length s)") (auto simp: neq_Nil_conv)

declare replace_with_empty.simps [simp del]

section \<open>Detection service\<close>

text \<open>
  \<open>DetectionService.improvement_thresholds\<close>, a dictionary of three dictionaries.
\<close>

definition improvement_thresholds :: "real dict dict" where
  "improvement_thresholds =
     [(''average'',
         [(''percentile_change'', 10), (''grade_level_change'', 1), (''vocab_growth'', 10),
          (''complexity_growth'', 10), (''style_improvement'', 10)]),
      (''high'',
         [(''percentile_change'', 25), (''grade_level_change'', 3 / 2), (''vocab_growth'', 25),
          (''complexity_growth'', 25), (''style_improvement'', 25)]),
      (''suspicious'',
         [(''percentile_change'', 30), (''grade_level_change'', 2), (''vocab_growth'', 30),
          (''complexity_growth'', 30), (''style_improvement'', 30)])]"

text \<open>\<open>self.improvement_thresholds[level][key]\<close>.\<close>

definition threshold :: "string \<Rightarrow> string \<Rightarrow> error + real" where
  "threshold level key =
     (case getitem improvement_thresholds level of
        Inl e \<Rightarrow> Inl e
      | Inr table \<Rightarrow> getitem table key)"

text \<open>
  \<open>_calculate_improvements\<close>: the loop over the baseline's entries. A metric whose
  baseline value is not positive is skipped; \<open>submitted[metric]\<close> raises \<open>KeyError\<close> when
  the submitted essay lacks the metric; the change is divided by the time span only when
  the time span is positive.
\<close>

fun calculate_improvements_loop ::
  "real dict \<Rightarrow> real dict \<Rightarrow> real \<Rightarrow> real dict \<Rightarrow> error + real dict" where
  "calculate_improvements_loop [] submitted time_span improvements = Inr improvements"
| "calculate_improvements_loop ((metric, b) # rest) submitted time_span improvements =
     (if b > 0 then
        (case getitem submitted metric of
           Inl e \<Rightarrow> Inl e
         | Inr s \<Rightarrow>
             (let change = ((s - b) / b) * 100;
                  yearly_change = (if time_span > 0 then change / time_span else change)
              in calculate_improvements_loop rest submitted time_span
                   (setitem improvements (metric @ ''_change'') yearly_change)))
      else calculate_improvements_loop rest submitted time_span improvements)"

definition calculate_improvements :: "real dict \<Rightarrow> real dict \<Rightarrow> real \<Rightarrow> error + real dict" where
  "calculate_improvements baseline submitted time_span =
     calculate_improvements_loop baseline submitted time_span []"

text \<open>
  \<open>_evaluate_improvement_realism\<close>: the loop adds 1 for a value above the suspicious
  threshold and 0.5 for a value above the high threshold; both thresholds are looked up
  under the metric's key with every \<open>_change\<close> removed. The count is then divided by the
  number of entries, which raises \<open>ZeroDivisionError\<close> for an empty dictionary.
\<close>

fun realism_loop :: "real dict \<Rightarrow> real \<Rightarrow> error + real" where
  "realism_loop [] suspicious_count = Inr suspicious_count"
| "realism_loop ((metric, v) # rest) suspicious_count =
     (case threshold ''suspicious'' (replace_with_empty ''_change'' metric) of
        Inl e \<Rightarrow> Inl e
      | Inr st \<Rightarrow>
          if v > st then realism_loop rest (suspicious_count + 1)
          else (case threshold ''high'' (replace_with_empty ''_change'' metric) of
                  Inl e \<Rightarrow> Inl e
                | Inr ht \<Rightarrow>
                    if v > ht then realism_loop rest (suspicious_count + 1 / 2)
                    else realism_loop rest suspicious_count))"

definition evaluate_improvement_realism :: "real dict \<Rightarrow> real \<Rightarrow> error + real" where
  "evaluate_improvement_realism improvements time_span =
     (let total_metrics = length improvements in
      case realism_loop improvements 0 of
        Inl e \<Rightarrow> Inl e
      | Inr suspicious_count \<Rightarrow>
          if total_metrics = 0 then Inl ZeroDivisionError
          else Inr (min (max (suspicious_count / real total_metrics) 0) 1))"


text \<open>
  For stating what the evaluation computes: a key has thresholds when both tables hold
  it, and the contribution of a metric with thresholds is 1 above the suspicious
  threshold, 0.5 above the high threshold only, and 0 otherwise.
\<close>

definition has_thresholds :: "string \<Rightarrow> bool" where
  "has_thresholds key =
     (\<not> isl (threshold ''suspicious'' key) \<and> \<not> isl (threshold ''high'' key))"

definition contribution :: "string \<Rightarrow> real \<Rightarrow> real" where
  "contribution key v =
     (case (threshold ''suspicious'' key, threshold ''high'' key) of
        (Inr st, Inr ht) \<Rightarrow> if v > st then 1 else if v > ht then 1 / 2 else 0
      | _ \<Rightarrow> 0)"

subsection \<open>Essays and style metrics\<close>

text \<open>
  \<open>models.essay.Essay\<close>. \<open>created_at\<close> is a \<open>datetime\<close>, modelled as the number of
  microseconds since the epoch; the \<open>days\<close> of a difference of two datetimes is the
  difference floor-divided by one day.
\<close>

record essay =
  essay_id :: string
  student_id :: string
  content :: string
  essay_type :: string
  created_at :: int
  metrics :: "real dict option"

definition timedelta_days :: "int \<Rightarrow> int \<Rightarrow> int" where
  "timedelta_days later earlier = (later - earlier) div 86400000000"

text \<open>
  Text is modelled as ASCII: \<open>isspace\<close> is Python's \<open>str.isspace\<close>, \<open>is_word_char\<close>
  the class \<open>\w\<close> of \<open>re\<close>, and \<open>lower\<close> is \<open>str.lower\<close>, each on ASCII characters.
\<close>

definition isspace :: "char \<Rightarrow> bool" where
  "isspace c = (c \<in> set [CHR 0x09, CHR 0x0A, CHR 0x0B, CHR 0x0C, CHR 0x0D,
                          CHR 0x1C, CHR 0x1D, CHR 0x1E, CHR 0x1F, CHR 0x20])"

definition ord :: "char \<Rightarrow> nat" where
  "ord c = of_char c"

definition is_word_char :: "char \<Rightarrow> bool" where
  "is_word_char c =
     ((ord CHR ''a'' \<le> ord c \<and> ord c \<le> ord CHR ''z'') \<or>
      (ord CHR ''A'' \<le> ord c \<and> ord c \<le> ord CHR ''Z'') \<or>
      (ord CHR ''0'' \<le> ord c \<and> ord c \<le> ord CHR ''9'') \<or> c = CHR ''_'')"

definition lower_char :: "char \<Rightarrow> char" where
  "lower_char c =
     (if ord CHR ''A'' \<le> ord c \<and> ord c \<le> ord CHR ''Z'' then char_of (ord c + 32) else c)"

definition lower :: "string \<Rightarrow> string" where
  "lower s = map lower_char s"

definition strip :: "string \<Rightarrow> string" where
  "strip s = rev (dropWhile isspace (rev (dropWhile isspace s)))"

text \<open>
  \<open>runs P s\<close>: the maximal runs of characters that satisfy \<open>P\<close>, from left to right.
  \<open>re.findall(r'\w+', s)\<close> is \<open>runs is_word_char s\<close>, and \<open>s.split()\<close> is the runs of
  characters that are not whitespace.
\<close>

function runs :: "(char \<Rightarrow> bool) \<Rightarrow> string \<Rightarrow> string list" where
  "runs P [] = []"
| "runs P (c # cs) =
     (if P c then (c # takeWhile P cs) # runs P (dropWhile P cs) else runs P cs)"
  by pat_completeness auto
termination
  by (relation "measure (\<lambda>(P, s). length s)") (auto simp: length_dropWhile_le less_Suc_eq_le)

definition split_whitespace :: "string \<Rightarrow> string list" where
  "split_whitespace s = runs (\<lambda>c. \<not> isspace c) s"

text \<open>
  \<open>re.split(r'[.!?]+', s)\<close>: the pieces between the runs of terminators, the empty
  pieces at both ends included. \<open>cur\<close> holds the current piece, reversed.
\<close>

definition is_terminator :: "char \<Rightarrow> bool" where
  "is_terminator c = (c = CHR ''.'' \<or> c = CHR ''!'' \<or> c = CHR ''?'')"

function re_split_terminators :: "string \<Rightarrow> string \<Rightarrow> string list" where
  "re_split_terminators cur [] = [rev cur]"
| "re_split_terminators cur (c # cs) =
     (if is_terminator c then rev cur # re_split_terminators [] (dropWhile is_terminator cs)
      else re_split_terminators (c # cur) cs)"
  by pat_completeness auto
termination
  by (relation "measure (\<lambda>(cur, s). length s)") (auto simp: length_dropWhile_le less_Suc_eq_le)

text \<open>
  The helper methods \<open>_calculate_percentile\<close>, \<open>_calculate_grade_level\<close>,
  \<open>_calculate_style_score\<close> and \<open>_calculate_similarity\<close> are called by the service but
  are not defined in its file; they are parameters here. In the file as it stands each
  call raises \<open>AttributeError\<close>, which is \<open>missing_helpers\<close>.
\<close>

record helpers =
  calculate_percentile :: "string \<Rightarrow> error + real"
  calculate_grade_level :: "string \<Rightarrow> error + real"
  calculate_style_score :: "string \<Rightarrow> error + real"
  calculate_similarity :: "real dict \<Rightarrow> real dict \<Rightarrow> error + real"

definition missing_helpers :: helpers where
  "missing_helpers =
     \<lparr>calculate_percentile = (\<lambda>_. Inl (AttributeError ''_calculate_percentile'')),
      calculate_grade_level = (\<lambda>_. Inl (AttributeError ''_calculate_grade_level'')),
      calculate_style_score = (\<lambda>_. Inl (AttributeError ''_calculate_style_score'')),
      calculate_similarity = (\<lambda>_ _. Inl (AttributeError ''_calculate_similarity''))\<rparr>"

definition default_style_metrics :: "real dict" where
  "default_style_metrics =
     [(''percentile'', 50), (''grade_level'', 8), (''vocab'', 100), (''complexity'', 15),
      (''style'', 5)]"

text \<open>
  \<open>_extract_style_metrics\<close>: the dictionary's five values are computed in order; an
  exception in any of them (a failing helper, or the division by the number of sentences
  when there is none) is caught and the default metrics are returned.
\<close>

definition extract_style_metrics_try :: "helpers \<Rightarrow> string \<Rightarrow> error + real dict" where
  "extract_style_metrics_try h text =
     (let words = runs is_word_char (lower text);
          sentences = filter (\<lambda>s. s \<noteq> []) (map strip (re_split_terminators [] text))
      in case calculate_percentile h text of
           Inl e \<Rightarrow> Inl e
         | Inr percentile \<Rightarrow>
             (case calculate_grade_level h text of
                Inl e \<Rightarrow> Inl e
              | Inr grade_level \<Rightarrow>
                  if length sentences = 0 then Inl ZeroDivisionError
                  else (case calculate_style_score h text of
                          Inl e \<Rightarrow> Inl e
                        | Inr style \<Rightarrow>
                            Inr [(''percentile'', percentile),
                                 (''grade_level'', grade_level),
                                 (''vocab'', real (card (set words))),
                                 (''complexity'',
                                    real (sum_list (map (\<lambda>s. length (split_whitespace s)) sentences))
                                      / real (length sentences)),
                                 (''style'', style)])))"

definition extract_style_metrics :: "helpers \<Rightarrow> string \<Rightarrow> real dict" where
  "extract_style_metrics h text =
     (case extract_style_metrics_try h text of
        Inl e \<Rightarrow> default_style_metrics
      | Inr m \<Rightarrow> m)"

subsection \<open>Comparing two essays\<close>

text \<open>
  The dictionary \<open>compare_essays\<close> returns: the fallback of the \<open>except\<close> branch has no
  \<open>improvements\<close> entry.
\<close>

datatype comparison =
  Comparison (similarity_score: real) (ai_probability: real) (improvements: "real dict option")

definition fallback_comparison :: comparison where
  "fallback_comparison = Comparison (75 / 100) (25 / 100) None"

text \<open>The body of the \<open>try\<close> block of \<open>compare_essays\<close>.\<close>

definition compare_essays_try :: "helpers \<Rightarrow> essay \<Rightarrow> essay \<Rightarrow> error + comparison" where
  "compare_essays_try h baseline submitted =
     (let time_diff = real_of_int (timedelta_days (created_at submitted) (created_at baseline)) / 365;
          baseline_metrics = extract_style_metrics h (content baseline);
          submitted_metrics = extract_style_metrics h (content submitted)
      in case calculate_improvements baseline_metrics submitted_metrics time_diff of
           Inl e \<Rightarrow> Inl e
         | Inr imps \<Rightarrow>
             (case evaluate_improvement_realism imps time_diff of
                Inl e \<Rightarrow> Inl e
              | Inr ai \<Rightarrow>
                  (case calculate_similarity h baseline_metrics submitted_metrics of
                     Inl e \<Rightarrow> Inl e
                   | Inr sim \<Rightarrow> Inr (Comparison sim ai (Some imps)))))"

text \<open>\<open>compare_essays\<close>: every exception of the body is caught and replaced by the fallback.\<close>

definition compare_essays :: "helpers \<Rightarrow> essay \<Rightarrow> essay \<Rightarrow> error + comparison" where
  "compare_essays h baseline submitted =
     (case compare_essays_try h baseline submitted of
        Inl e \<Rightarrow> Inr fallback_comparison
      | Inr result \<Rightarrow> Inr result)"


section \<open>Progress service\<close>

text \<open>Sequencing of computations that can raise, and Python's true division.\<close>

definition and_then :: "error + 'a \<Rightarrow> ('a \<Rightarrow> error + 'b) \<Rightarrow> error + 'b" where
  "and_then m f = (case m of Inl e \<Rightarrow> Inl e | Inr x \<Rightarrow> f x)"

definition true_div :: "real \<Rightarrow> real \<Rightarrow> error + real" where
  "true_div a b = (if b = 0 then Inl ZeroDivisionError else Inr (a / b))"

text \<open>\<open>essay.metrics[key]\<close>; \<open>metrics\<close> may be \<open>None\<close>, which is not subscriptable.\<close>

definition essay_metric :: "essay \<Rightarrow> string \<Rightarrow> error + real" where
  "essay_metric e key =
     (case metrics e of
        None \<Rightarrow> Inl (TypeError ''NoneType object is not subscriptable'')
      | Some d \<Rightarrow> getitem d key)"

text \<open>
  The two shapes of entry in \<open>_calculate_overall_improvement\<close>:
  \<open>(last[k] - first[k]) / time_span\<close> for the grade level, and
  \<open>(last[k] - first[k]) / first[k] * 100 / time_span\<close> for the other metrics.
\<close>

definition absolute_rate :: "essay \<Rightarrow> essay \<Rightarrow> string \<Rightarrow> real \<Rightarrow> error + real" where
  "absolute_rate first_essay last_essay key time_span =
     and_then (essay_metric last_essay key) (\<lambda>l.
     and_then (essay_metric first_essay key) (\<lambda>f.
     true_div (l - f) time_span))"

definition percent_rate :: "essay \<Rightarrow> essay \<Rightarrow> string \<Rightarrow> real \<Rightarrow> error + real" where
  "percent_rate first_essay last_essay key time_span =
     and_then (essay_metric last_essay key) (\<lambda>l.
     and_then (essay_metric first_essay key) (\<lambda>f.
     and_then (essay_metric first_essay key) (\<lambda>f'.
     and_then (true_div (l - f) f') (\<lambda>q.
     true_div (q * 100) time_span))))"

definition calculate_overall_improvement :: "essay list \<Rightarrow> error + real dict" where
  "calculate_overall_improvement essays =
     (if length essays < 2 then Inr []
      else
        (let first_essay = hd essays; last_essay = last essays;
             time_span =
               real_of_int (timedelta_days (created_at last_essay) (created_at first_essay)) / 365
         in and_then (absolute_rate first_essay last_essay ''grade_level'' time_span) (\<lambda>w.
            and_then (percent_rate first_essay last_essay ''vocabulary_size'' time_span) (\<lambda>v.
            and_then (percent_rate first_essay last_essay ''sentence_complexity'' time_span) (\<lambda>c.
            and_then (percent_rate first_essay last_essay ''style_fingerprint'' time_span) (\<lambda>s.
            Inr [(''writing_level'', w), (''vocabulary'', v), (''complexity'', c),
                 (''style'', s)]))))))"

section \<open>Analysis service\<close>

text \<open>
  \<open>round(x, n)\<close>: to the nearest multiple of \<open>10^-n\<close>, a tie going to the even
  neighbour.
\<close>

definition round_half_even :: "real \<Rightarrow> int" where
  "round_half_even x =
     (let f = \<lfloor>x\<rfloor>; d = x - of_int f
      in if d < 1 / 2 then f else if d > 1 / 2 then f + 1 else if even f then f else f + 1)"

definition py_round :: "real \<Rightarrow> nat \<Rightarrow> real" where
  "py_round x n = of_int (round_half_even (x * 10 ^ n)) / 10 ^ n"

text \<open>
  \<open>word_tokenize\<close> and \<open>sent_tokenize\<close> belong to the NLTK library; they are
  parameters, and may raise (a missing tokenizer model raises \<open>LookupError\<close>).
\<close>

record nlp =
  word_tokenize :: "string \<Rightarrow> error + string list"
  sent_tokenize :: "string \<Rightarrow> error + string list"

text \<open>
  The dictionary \<open>{"error": ...}\<close> that the service returns in place of a result: its
  text is either a fixed message or \<open>str(e)\<close> of a caught exception \<open>e\<close>.
\<close>

datatype error_text = Message string | StrOf error

datatype 'r or_error_dict = ErrorDict error_text | Result 'r

text \<open>\<open>settings["min_words"]\<close> and \<open>settings["max_words"]\<close>.\<close>

definition min_words :: nat where
  "min_words = 100"

definition max_words :: nat where
  "max_words = 10000"

text \<open>\<open>_validate_content\<close> compares the number of characters of the stripped text.\<close>

definition validate_content :: "string \<Rightarrow> bool" where
  "validate_content text =
     (let n = length (strip text) in n \<ge> min_words \<and> n \<le> max_words)"

text \<open>\<open>_count_syllables\<close>; the counter \<open>count\<close> of the source is \<open>n\<close>.\<close>

definition strip_chars :: "string \<Rightarrow> string \<Rightarrow> string" where
  "strip_chars chars s =
     rev (dropWhile (\<lambda>c. c \<in> set chars) (rev (dropWhile (\<lambda>c. c \<in> set chars) s)))"

definition endswith :: "string \<Rightarrow> string \<Rightarrow> bool" where
  "endswith s suffix =
     (length suffix \<le> length s \<and> drop (length s - length suffix) s = suffix)"

fun count_vowel_groups :: "string \<Rightarrow> bool \<Rightarrow> int \<Rightarrow> int" where
  "count_vowel_groups [] on_vowel n = n"
| "count_vowel_groups (c # cs) on_vowel n =
     (let is_vowel = c \<in> set ''aeiouy''
      in count_vowel_groups cs is_vowel
           (if is_vowel \<and> \<not> on_vowel then n + 1 else n))"

definition count_syllables :: "string \<Rightarrow> int" where
  "count_syllables w =
     (let word = strip_chars ''0123456789'' (lower w);
          n = count_vowel_groups word False 0;
          n = (if endswith word ''e'' then n - 1 else n);
          n = (if endswith word ''le'' \<and> length word > 2 \<and>
                      word ! (length word - 3) \<notin> set ''aeiouy''
                   then n + 1 else n)
      in if n = 0 then 1 else n)"

text \<open>
  \<open>_calculate_readability\<close>: the scores of a text with words and sentences, the grade
  level clamped to the interval from 0 to 12 before it is rounded.
\<close>

datatype readability =
  Readability (grade_level: real) (avg_syllables_per_word: real) (avg_words_per_sentence: real)

definition calculate_readability_try :: "nlp \<Rightarrow> string \<Rightarrow> error + readability or_error_dict" where
  "calculate_readability_try tk text =
     and_then (word_tokenize tk text) (\<lambda>words.
     and_then (sent_tokenize tk text) (\<lambda>sentences.
       if words = [] \<or> sentences = [] then Inr (ErrorDict (Message ''No content to analyze''))
       else
         (let syllables = sum_list (map count_syllables words);
              words_per_sentence = real (length words) / real (length sentences);
              syllables_per_word = real_of_int syllables / real (length words);
              grade = 39 / 100 * words_per_sentence + 118 / 10 * syllables_per_word - 1559 / 100
          in Inr (Result (Readability (py_round (max 0 (min grade 12)) 1)
                                      (py_round syllables_per_word 2)
                                      (py_round words_per_sentence 2))))))"

definition calculate_readability :: "nlp \<Rightarrow> string \<Rightarrow> error + readability or_error_dict" where
  "calculate_readability tk text =
     (case calculate_readability_try tk text of
        Inl e \<Rightarrow> Inr (ErrorDict (StrOf e))
      | Inr r \<Rightarrow> Inr r)"

text \<open>
  \<open>_analyze_readability\<close> and its helper \<open>_calculate_avg_syllables\<close>, which counts the
  runs of the letters a, e, i, o, u in the alphanumeric words.
\<close>

definition isalnum :: "string \<Rightarrow> bool" where
  "isalnum s = (s \<noteq> [] \<and> (\<forall>c \<in> set s. is_word_char c \<and> c \<noteq> CHR ''_''))"

definition calculate_avg_syllables :: "string list \<Rightarrow> real" where
  "calculate_avg_syllables words =
     (let total_syllables =
            sum_list (map (\<lambda>w. length (runs (\<lambda>c. c \<in> set ''aeiou'') (lower w)))
                          (filter isalnum words))
      in if words \<noteq> [] then real total_syllables / real (length words) else 0)"

datatype readability_analysis =
  ReadabilityAnalysis (score: real) (analysis_grade_level: real)
    (analysis_words_per_sentence: "real option") (analysis_syllables_per_word: "real option")

definition analyze_readability_try :: "nlp \<Rightarrow> string \<Rightarrow> error + readability_analysis" where
  "analyze_readability_try tk text =
     and_then (word_tokenize tk text) (\<lambda>words.
     and_then (sent_tokenize tk text) (\<lambda>sentences.
       if words = [] \<or> sentences = [] then Inr (ReadabilityAnalysis 0 0 None None)
       else
         (let avg_words_per_sentence = real (length words) / real (length sentences);
              avg_syllables = calculate_avg_syllables words;
              grade = 39 / 100 * avg_words_per_sentence + 118 / 10 * avg_syllables - 1559 / 100
          in Inr (ReadabilityAnalysis (py_round grade 2) (py_round grade 1)
                    (Some (py_round avg_words_per_sentence 2))
                    (Some (py_round avg_syllables 2))))))"

definition analyze_readability :: "nlp \<Rightarrow> string \<Rightarrow> error + readability_analysis" where
  "analyze_readability tk text =
     (case analyze_readability_try tk text of
        Inl e \<Rightarrow> Inr (ReadabilityAnalysis 0 0 None None)
      | Inr r \<Rightarrow> Inr r)"

text \<open>
  \<open>analyze_text\<close>; \<open>TextAnalysis\<close> holds the entries \<open>ai_detection\<close>,
  \<open>writing_quality\<close>, \<open>readability\<close> and \<open>structure\<close> of its result. The AI detector, the writing-quality analysis and the structure
  analysis rest on external models and are parameters. An invalid length raises
  \<open>ValueError\<close> inside the \<open>try\<close> block, and every exception of the block is turned into
  an error dictionary.
\<close>

record ('d, 'q, 's) analysis_parts =
  detect_ai_content :: "string \<Rightarrow> error + 'd"
  analyze_writing_quality :: "string \<Rightarrow> error + 'q"
  analyze_structure :: "string \<Rightarrow> error + 's"

datatype ('d, 'q, 's) text_analysis =
  TextAnalysis 'd 'q "readability or_error_dict" 's

definition analyze_text_try ::
  "nlp \<Rightarrow> ('d, 'q, 's) analysis_parts \<Rightarrow> string \<Rightarrow> error + ('d, 'q, 's) text_analysis" where
  "analyze_text_try tk parts text =
     (if \<not> validate_content text then Inl (ValueError ''Invalid content length'')
      else
        and_then (detect_ai_content parts text) (\<lambda>d.
        and_then (analyze_writing_quality parts text) (\<lambda>q.
        and_then (calculate_readability tk text) (\<lambda>r.
        and_then (analyze_structure parts text) (\<lambda>s.
        Inr (TextAnalysis d q r s))))))"

definition analyze_text ::
  "nlp \<Rightarrow> ('d, 'q, 's) analysis_parts \<Rightarrow> string \<Rightarrow>
     error + ('d, 'q, 's) text_analysis or_error_dict" where
  "analyze_text tk parts text =
     (case analyze_text_try tk parts text of
        Inl e \<Rightarrow> Inr (ErrorDict (StrOf e))
      | Inr a \<Rightarrow> Inr (Result a))"


section \<open>Student and class progress services\<close>

text \<open>
  The metrics both services track (\<open>settings["metrics"]\<close>), and a stored essay: a
  dictionary that may hold the essay's analysis under \<open>"analysis"\<close>.
\<close>

definition settings_metrics :: "string list" where
  "settings_metrics =
     [''grade_level'', ''vocabulary_diversity'', ''syntax_complexity'', ''writing_style'',
      ''coherence'']"

record stored_essay =
  analysis :: "real dict option"

text \<open>
  \<open>[essay["analysis"][metric] for essay in essays
     if "analysis" in essay and metric in essay["analysis"]]\<close>.
\<close>

definition metric_values :: "stored_essay list \<Rightarrow> string \<Rightarrow> real list" where
  "metric_values essays metric =
     concat (map (\<lambda>e. case analysis e of
                          None \<Rightarrow> []
                        | Some a \<Rightarrow> (case map_of a metric of None \<Rightarrow> [] | Some v \<Rightarrow> [v]))
                 essays)"

subsection \<open>Least squares\<close>

text \<open>
  \<open>numpy.arange(n)\<close>, and the regression of the libraries (\<open>scipy.stats.linregress\<close>,
  \<open>numpy.polyfit\<close> of degree 1) as their documentation gives it: the slope is the
  covariance of \<open>x\<close> and \<open>y\<close> over the variance of \<open>x\<close>, the correlation coefficient
  \<open>r\<close> is the covariance over the square root of the product of the variances, and 0
  when a variance is 0. \<open>linregress\<close> raises \<open>ValueError\<close> on fewer than two points and
  on identical \<open>x\<close> values.
\<close>

definition arange :: "nat \<Rightarrow> real list" where
  "arange n = map real [0..<n]"

definition mean :: "real list \<Rightarrow> real" where
  "mean xs = sum_list xs / real (length xs)"

definition covariance :: "real list \<Rightarrow> real list \<Rightarrow> real" where
  "covariance xs ys = mean (map (\<lambda>(x, y). (x - mean xs) * (y - mean ys)) (zip xs ys))"

definition ols_slope :: "real list \<Rightarrow> real list \<Rightarrow> real" where
  "ols_slope xs ys = covariance xs ys / covariance xs xs"

definition pearson_r :: "real list \<Rightarrow> real list \<Rightarrow> real" where
  "pearson_r xs ys =
     (if covariance xs xs = 0 \<or> covariance ys ys = 0 then 0
      else covariance xs ys / sqrt (covariance xs xs * covariance ys ys))"

definition linregress :: "real list \<Rightarrow> real list \<Rightarrow> error + real \<times> real" where
  "linregress xs ys =
     (if length xs \<noteq> length ys then Inl (ValueError ''Inputs must have the same length'')
      else if length xs < 2 then Inl (ValueError ''Inputs must have at least two elements'')
      else if covariance xs xs = 0
        then Inl (ValueError ''Cannot calculate a linear regression if all x values are identical'')
      else Inr (ols_slope xs ys, pearson_r xs ys))"

subsection \<open>Class service: the trend of one student\<close>

text \<open>
  \<open>_calculate_student_trend\<close>: for each tracked metric that at least three essays
  carry, the entry of the trend is \<open>slope * r_value\<close>; an exception anywhere gives the
  empty dictionary.
\<close>

fun student_trend_loop :: "string list \<Rightarrow> stored_essay list \<Rightarrow> real dict \<Rightarrow> error + real dict" where
  "student_trend_loop [] essays trends = Inr trends"
| "student_trend_loop (metric # rest) essays trends =
     (let vals = metric_values essays metric
      in if length vals \<ge> 3 then
           (case linregress (arange (length vals)) vals of
              Inl e \<Rightarrow> Inl e
            | Inr (sl, r_value) \<Rightarrow>
                student_trend_loop rest essays (setitem trends metric (sl * r_value)))
         else student_trend_loop rest essays trends)"

definition calculate_student_trend :: "stored_essay list \<Rightarrow> error + real dict" where
  "calculate_student_trend essays =
     (case student_trend_loop settings_metrics essays [] of
        Inl e \<Rightarrow> Inr []
      | Inr trends \<Rightarrow> Inr trends)"

subsection \<open>Student service: trends\<close>

text \<open>
  \<open>_calculate_trend_strength\<close>: \<open>1 - ss_res / ss_tot\<close> of the fitted line. For a
  constant series \<open>ss_tot\<close> is 0 and numpy's division yields no number, which is
  \<open>None\<close> here.
\<close>

definition calculate_trend_strength :: "real list \<Rightarrow> real option" where
  "calculate_trend_strength vals =
     (let x = arange (length vals);
          sl = ols_slope x vals;
          intercept = mean vals - sl * mean x;
          y_hat = map (\<lambda>xi. sl * xi + intercept) x;
          y_bar = mean vals;
          ss_tot = sum_list (map (\<lambda>v. (v - y_bar) ^ 2) vals);
          ss_res = sum_list (map (\<lambda>(v, yh). (v - yh) ^ 2) (zip vals y_hat))
      in if ss_tot = 0 then None else Some (1 - ss_res / ss_tot))"

datatype metric_trend =
  MetricTrend (slope: real) (improving: bool) (trend_strength: "real option")

text \<open>
  The result of \<open>_analyze_trends\<close>: \<open>{"sufficient_data": False}\<close>, or
  \<open>{"sufficient_data": True, "metrics": trends}\<close>.
\<close>

datatype trends_report = InsufficientData | SufficientData "metric_trend dict"

definition min_essays_for_trend :: nat where
  "min_essays_for_trend = 3"

fun analyze_trends_loop ::
  "string list \<Rightarrow> stored_essay list \<Rightarrow> real dict \<Rightarrow> metric_trend dict \<Rightarrow>
     error + metric_trend dict" where
  "analyze_trends_loop [] previous_essays new_analysis trends = Inr trends"
| "analyze_trends_loop (metric # rest) previous_essays new_analysis trends =
     (case getitem new_analysis metric of
        Inl e \<Rightarrow> Inl e
      | Inr new_value \<Rightarrow>
          (let vals = metric_values previous_essays metric @ [new_value]
           in if length vals \<ge> min_essays_for_trend then
                (let sl = ols_slope (arange (length vals)) vals
                 in analyze_trends_loop rest previous_essays new_analysis
                      (setitem trends metric
                         (MetricTrend sl (sl > 0) (calculate_trend_strength vals))))
              else analyze_trends_loop rest previous_essays new_analysis trends))"

definition analyze_trends :: "stored_essay list \<Rightarrow> real dict \<Rightarrow> error + trends_report" where
  "analyze_trends previous_essays new_analysis =
     (if length previous_essays < min_essays_for_trend then Inr InsufficientData
      else (case analyze_trends_loop settings_metrics previous_essays new_analysis [] of
              Inl e \<Rightarrow> Inr InsufficientData
            | Inr trends \<Rightarrow> Inr (SufficientData trends)))"

subsection \<open>Student service: the baseline\<close>

text \<open>
  The metric vector of the data model: one value for each of its named metrics.
\<close>

datatype metric_name =
    WordCount | AvgWordLength | SentenceCount | AvgSentenceLength | VocabularySize
  | SentenceComplexity | GradeLevel | StyleFingerprint | PerplexityProxy | Burstiness
  | Entropy | Repetition

type_synonym metric_vector = "metric_name \<Rightarrow> real"

text \<open>
  Modelled from the spec: \<open>set_student_baseline\<close> calls \<open>_calculate_average_metrics\<close>,
  which is not defined in the service's file. The spec gives the baseline's metrics as the
  element-wise arithmetic mean across the supplied essays' metric vectors.
\<close>

definition calculate_average_metrics :: "metric_vector list \<Rightarrow> metric_vector" where
  "calculate_average_metrics analyses =
     (\<lambda>m. sum_list (map (\<lambda>v. v m) analyses) / real (length analyses))"

text \<open>
  Modelled from the spec: the baseline builder fails with a validation error on an empty
  list of essays, and otherwise returns the average metrics.
\<close>

definition baseline_builder :: "metric_vector list \<Rightarrow> error + metric_vector" where
  "baseline_builder analyses =
     (if analyses = [] then Inl (ValueError ''no baseline essays'')
      else Inr (calculate_average_metrics analyses))"

subsection \<open>Class service: the analysis of a class\<close>

text \<open>
  \<open>analyze_class_progress\<close>. The database, the analysis of one student and the
  class-wide statistics (which rest on numpy and scipy) are parameters; the analyses
  stored by \<open>store_class_analysis\<close> are the state.
\<close>

definition min_students :: nat where
  "min_students = 5"

record ('c, 'p, 'a) class_env =
  get_class :: "string \<Rightarrow> error + 'c option"
  get_class_students :: "string \<Rightarrow> error + string list"
  analyze_student_progress :: "string \<Rightarrow> 'p option"
  class_analysis :: "string \<Rightarrow> 'p list \<Rightarrow> error + 'a"

datatype 'a class_progress = NoResult | ClassError string | ClassAnalysis 'a

definition analyze_class_progress_try ::
  "('c, 'p, 'a) class_env \<Rightarrow> string \<Rightarrow> 'a list \<Rightarrow> error + 'a class_progress \<times> 'a list" where
  "analyze_class_progress_try env class_id stored =
     and_then (get_class env class_id) (\<lambda>class_data.
       case class_data of
         None \<Rightarrow> Inl (ValueError (''Class not found: '' @ class_id))
       | Some _ \<Rightarrow>
           and_then (get_class_students env class_id) (\<lambda>students.
             if length students < min_students
             then Inr (ClassError ''Insufficient students for reliable analysis'', stored)
             else
               (let student_progress = List.map_filter (analyze_student_progress env) students
                in and_then (class_analysis env class_id student_progress) (\<lambda>a.
                     Inr (ClassAnalysis a, stored @ [a])))))"

definition analyze_class_progress ::
  "('c, 'p, 'a) class_env \<Rightarrow> string \<Rightarrow> 'a list \<Rightarrow> error + 'a class_progress \<times> 'a list" where
  "analyze_class_progress env class_id stored =
     (case analyze_class_progress_try env class_id stored of
        Inl e \<Rightarrow> Inr (NoResult, stored)
      | Inr r \<Rightarrow> Inr r)"


section \<open>Properties of the detection service\<close>

subsection \<open>Dictionaries\<close>

lemma getitem_Inr: "map_of d k = Some v \<Longrightarrow> getitem d k = Inr v"
  by (simp add: getitem_def)

lemma setitem_append: "k \<notin> fst ` set d \<Longrightarrow> setitem d k v = d @ [(k, v)]"
  by (induction d) auto

lemma setitem_keys: "fst ` set (setitem d k v) = insert k (fst ` set d)"
proof (induction d)
  case Nil
  show ?case by simp
next
  case (Cons p d)
  obtain k' v' where p: "p = (k', v')" by (cases p)
  show ?case using Cons p by (cases "k' = k") auto
qed

lemma map_of_setitem: "map_of (setitem d k v) = (map_of d)(k \<mapsto> v)"
  by (induction d) auto

subsection \<open>Improvements when the time span is not positive\<close>

lemma calculate_improvements_loop_unnormalised:
  assumes "time_span \<le> 0"
    and "distinct (map fst baseline)"
    and "\<forall>m \<in> fst ` set baseline. m @ ''_change'' \<notin> fst ` set acc"
    and "\<forall>(m, b) \<in> set baseline. b > 0 \<longrightarrow> m \<in> fst ` set submitted"
  shows "calculate_improvements_loop baseline submitted time_span acc =
           Inr (acc @ map (\<lambda>(m, b). (m @ ''_change'', ((the (map_of submitted m) - b) / b) * 100))
                        (filter (\<lambda>(m, b). b > 0) baseline))"
  using assms(2-4)
proof (induction baseline arbitrary: acc)
  case Nil
  then show ?case by simp
next
  case (Cons p rest)
  obtain m b where p: "p = (m, b)" by (cases p)
  have d: "distinct (map fst rest)" and mrest: "m \<notin> fst ` set rest"
    using Cons.prems(1) p by auto
  have sub: "\<forall>(m, b) \<in> set rest. b > 0 \<longrightarrow> m \<in> fst ` set submitted"
    using Cons.prems(3) by auto
  show ?case
  proof (cases "b > 0")
    case False
    have acc: "\<forall>m \<in> fst ` set rest. m @ ''_change'' \<notin> fst ` set acc"
      using Cons.prems(2) by auto
    show ?thesis using False p Cons.IH[OF d acc sub] by simp
  next
    case True
    then have "m \<in> fst ` set submitted" using Cons.prems(3) p by auto
    then obtain s where s: "map_of submitted m = Some s"
      by (metis domD dom_map_of_conv_image_fst)
    let ?v = "((s - b) / b) * 100"
    have fresh: "m @ ''_change'' \<notin> fst ` set acc" using Cons.prems(2) p by auto
    have acc': "\<forall>m' \<in> fst ` set rest.
                  m' @ ''_change'' \<notin> fst ` set (acc @ [(m @ ''_change'', ?v)])"
      using Cons.prems(2) mrest by auto
    show ?thesis
      using True p s assms(1) Cons.IH[OF d acc' sub]
      by (simp add: getitem_Inr setitem_append[OF fresh])
  qed
qed

text \<open>
  Claim C3, as amended. When the elapsed time is not strictly positive,
  \<open>_calculate_improvements\<close> rejects nothing and divides nothing by the elapsed time:
  for a baseline dictionary whose metrics with a positive value all occur in the submitted
  dictionary, it returns, for each of those metrics in order, the percentage change
  \<open>(submitted - baseline) / baseline * 100\<close> under the key \<open>metric_change\<close>.
\<close>

theorem calculate_improvements_nonpositive_time_span:
  assumes "time_span \<le> 0"
    and "distinct (map fst baseline)"
    and "\<forall>(m, b) \<in> set baseline. b > 0 \<longrightarrow> m \<in> fst ` set submitted"
  shows "calculate_improvements baseline submitted time_span =
           Inr (map (\<lambda>(m, b). (m @ ''_change'', ((the (map_of submitted m) - b) / b) * 100))
                    (filter (\<lambda>(m, b). b > 0) baseline))"
  unfolding calculate_improvements_def
  using calculate_improvements_loop_unnormalised[OF assms(1,2) _ assms(3), of "[]"] by simp

theorem calculate_improvements_nonpositive_time_span_witness:
  "(- 1 / 365 :: real) \<le> 0 \<and>
   distinct (map fst [(''vocab'', 100 :: real), (''style'', 0), (''grade_level'', 8)]) \<and>
   calculate_improvements [(''vocab'', 100), (''style'', 0), (''grade_level'', 8)]
      [(''vocab'', 150), (''grade_level'', 10)] (- 1 / 365) =
     Inr [(''vocab_change'', 50), (''grade_level_change'', 25)]"
  using calculate_improvements_nonpositive_time_span
    [of "- 1 / 365" "[(''vocab'', 100), (''style'', 0), (''grade_level'', 8)]"
        "[(''vocab'', 150), (''grade_level'', 10)]"]
  by simp

text \<open>
  Claim C3 as stated fails: for a resubmission on the same day (elapsed time 0) the
  improvement computation returns a record, the plain percentage change, and no
  \<open>DegenerateTimeSpan\<close> condition.
\<close>

theorem same_day_resubmission_not_rejected:
  "calculate_improvements [(''vocab'', 100)] [(''vocab'', 150)] 0 = Inr [(''vocab_change'', 50)]"
  by (simp add: calculate_improvements_def getitem_def)

subsection \<open>The yearly rate of the grade level\<close>

text \<open>
  Claim C4, at the failing input: a baseline grade level of 8.0 and a submitted grade
  level of 8.5 one year later. \<open>_calculate_improvements\<close> stores 6.25, the change as a
  percentage of the baseline, where the claim gives the absolute change per year, 0.5.
\<close>

theorem calculate_improvements_grade_level_is_percentage:
  "calculate_improvements [(''grade_level'', 8)] [(''grade_level'', 17 / 2)] 1 =
     Inr [(''grade_level_change'', 25 / 4)]"
  by (simp add: calculate_improvements_def getitem_def)

subsection \<open>The realism evaluation\<close>

lemma replace_style_keys:
  "replace_with_empty ''_change'' ''percentile_change'' = ''percentile''"
  "replace_with_empty ''_change'' ''grade_level_change'' = ''grade_level''"
  "replace_with_empty ''_change'' ''vocab_change'' = ''vocab''"
  "replace_with_empty ''_change'' ''complexity_change'' = ''complexity''"
  "replace_with_empty ''_change'' ''style_change'' = ''style''"
  by (simp_all add: replace_with_empty.simps)

lemma threshold_style_keys:
  "k \<in> {''percentile'', ''grade_level'', ''vocab'', ''complexity'', ''style''} \<Longrightarrow>
     threshold ''suspicious'' (replace_with_empty ''_change'' (k @ ''_change'')) = Inl (KeyError k)"
  by (auto simp: replace_style_keys threshold_def getitem_def improvement_thresholds_def)

text \<open>
  Claim C1, at the failing input: the yearly rates \<open>{"grade_level_change": 7.0}\<close>, as
  \<open>_calculate_improvements\<close> names them. The threshold is looked up under
  \<open>grade_level\<close>, a key the threshold tables do not have, and the evaluation raises
  \<open>KeyError\<close> where the claim gives the contribution 1.0 and the score 1.0.
\<close>

theorem evaluate_improvement_realism_key_error:
  "evaluate_improvement_realism [(''grade_level_change'', 7)] (1 / 2) =
     Inl (KeyError ''grade_level'')"
  by (simp add: evaluate_improvement_realism_def threshold_def getitem_def
        improvement_thresholds_def replace_style_keys)

text \<open>
  Claim C2, at the failing input: the empty dictionary of yearly rates. The division by
  the number of metrics raises \<open>ZeroDivisionError\<close>, where the claim gives the score 0
  and a flag.
\<close>

theorem evaluate_improvement_realism_no_metrics:
  "evaluate_improvement_realism [] time_span = Inl ZeroDivisionError"
  by (simp add: evaluate_improvement_realism_def)

lemma threshold_values:
  "threshold ''suspicious'' ''percentile_change'' = Inr 30"
  "threshold ''suspicious'' ''grade_level_change'' = Inr 2"
  "threshold ''suspicious'' ''vocab_growth'' = Inr 30"
  "threshold ''suspicious'' ''complexity_growth'' = Inr 30"
  "threshold ''suspicious'' ''style_improvement'' = Inr 30"
  "threshold ''high'' ''percentile_change'' = Inr 25"
  "threshold ''high'' ''grade_level_change'' = Inr (3 / 2)"
  "threshold ''high'' ''vocab_growth'' = Inr 25"
  "threshold ''high'' ''complexity_growth'' = Inr 25"
  "threshold ''high'' ''style_improvement'' = Inr 25"
  by (simp_all add: threshold_def getitem_def improvement_thresholds_def)

lemma contribution_range: "0 \<le> contribution key v \<and> contribution key v \<le> 1"
  by (simp add: contribution_def split: sum.splits)

lemma realism_loop_step:
  assumes "has_thresholds (replace_with_empty ''_change'' k)"
  shows "realism_loop ((k, v) # rest) c =
           realism_loop rest (c + contribution (replace_with_empty ''_change'' k) v)"
proof -
  let ?key = "replace_with_empty ''_change'' k"
  obtain st where st: "threshold ''suspicious'' ?key = Inr st"
    using assms unfolding has_thresholds_def by (cases "threshold ''suspicious'' ?key") auto
  obtain ht where ht: "threshold ''high'' ?key = Inr ht"
    using assms unfolding has_thresholds_def by (cases "threshold ''high'' ?key") auto
  show ?thesis by (simp add: st ht contribution_def)
qed

lemma realism_loop_sum:
  assumes "\<forall>(k, v) \<in> set imps. has_thresholds (replace_with_empty ''_change'' k)"
  shows "realism_loop imps c =
           Inr (c + sum_list (map (\<lambda>(k, v). contribution (replace_with_empty ''_change'' k) v) imps))"
  using assms
proof (induction imps arbitrary: c)
  case Nil
  show ?case by simp
next
  case (Cons p rest)
  obtain k v where p: "p = (k, v)" by (cases p)
  have h: "has_thresholds (replace_with_empty ''_change'' k)" using Cons.prems p by simp
  have rest: "\<forall>(k, v) \<in> set rest. has_thresholds (replace_with_empty ''_change'' k)"
    using Cons.prems by simp
  show ?case unfolding p realism_loop_step[OF h] Cons.IH[OF rest] by simp
qed

lemma sum_list_bounds:
  fixes f :: "'a \<Rightarrow> real"
  assumes "\<And>x. 0 \<le> f x \<and> f x \<le> 1"
  shows "0 \<le> sum_list (map f xs) \<and> sum_list (map f xs) \<le> real (length xs)"
proof (induction xs)
  case Nil
  show ?case by simp
next
  case (Cons x xs)
  then show ?case using assms[of x] by simp
qed

lemma replace_growth_keys:
  "replace_with_empty ''_change'' ''vocab_growth'' = ''vocab_growth''"
  "replace_with_empty ''_change'' ''style_improvement'' = ''style_improvement''"
  "replace_with_empty ''_change'' ''complexity_growth'' = ''complexity_growth''"
  by (simp_all add: replace_with_empty.simps)

text \<open>
  When every key of the yearly rates, with \<open>_change\<close> removed, is a key of the threshold
  tables, the evaluation returns the arithmetic mean of the metrics' contributions, and
  the mean lies between 0 and 1.
\<close>

theorem realism_mean_when_keys_resolve:
  assumes "imps \<noteq> []"
    and "\<forall>(k, v) \<in> set imps. has_thresholds (replace_with_empty ''_change'' k)"
  shows "evaluate_improvement_realism imps time_span =
           Inr (sum_list (map (\<lambda>(k, v). contribution (replace_with_empty ''_change'' k) v) imps)
                  / real (length imps)) \<and>
         0 \<le> sum_list (map (\<lambda>(k, v). contribution (replace_with_empty ''_change'' k) v) imps)
                  / real (length imps) \<and>
         sum_list (map (\<lambda>(k, v). contribution (replace_with_empty ''_change'' k) v) imps)
                  / real (length imps) \<le> 1"
proof -
  let ?f = "\<lambda>(k, v). contribution (replace_with_empty ''_change'' k) v"
  let ?s = "sum_list (map ?f imps)"
  have "\<And>x. 0 \<le> ?f x \<and> ?f x \<le> 1"
    using contribution_range by (auto split: prod.splits)
  from sum_list_bounds[of ?f imps, OF this]
  have b: "0 \<le> ?s" "?s \<le> real (length imps)" by simp_all
  have n: "0 < real (length imps)" using assms(1) by simp
  have lo: "0 \<le> ?s / real (length imps)" using b(1) n by simp
  have hi: "?s / real (length imps) \<le> 1" using b(2) n by (simp add: divide_le_eq)
  have "evaluate_improvement_realism imps time_span = Inr (min (max (?s / real (length imps)) 0) 1)"
    using assms(1) realism_loop_sum[OF assms(2), of 0]
    by (simp add: evaluate_improvement_realism_def Let_def)
  moreover have "min (max (?s / real (length imps)) 0) 1 = ?s / real (length imps)"
    using lo hi by linarith
  ultimately show ?thesis using lo hi by simp
qed

theorem realism_mean_when_keys_resolve_witness:
  "[(''vocab_growth'', 35), (''style_improvement'', 26), (''complexity_growth'', 10 :: real)] \<noteq> [] \<and>
   evaluate_improvement_realism
     [(''vocab_growth'', 35), (''style_improvement'', 26), (''complexity_growth'', 10)] 1 =
     Inr (1 / 2)"
  using realism_mean_when_keys_resolve
    [of "[(''vocab_growth'', 35), (''style_improvement'', 26), (''complexity_growth'', 10)]" 1]
  by (simp add: replace_growth_keys has_thresholds_def contribution_def threshold_values)

subsection \<open>Comparing essays\<close>

lemma extract_style_metrics_keys:
  "map fst (extract_style_metrics h text) =
     [''percentile'', ''grade_level'', ''vocab'', ''complexity'', ''style'']"
  by (simp add: extract_style_metrics_def extract_style_metrics_try_def default_style_metrics_def
        Let_def split: sum.splits)

lemma calculate_improvements_loop_keys:
  "calculate_improvements_loop baseline submitted t acc = Inr imps \<Longrightarrow>
     fst ` set imps \<subseteq> fst ` set acc \<union> (\<lambda>m. m @ ''_change'') ` fst ` set baseline"
proof (induction baseline arbitrary: acc)
  case Nil
  then show ?case by simp
next
  case (Cons p rest)
  obtain m b where p: "p = (m, b)" by (cases p)
  show ?case
  proof (cases "b > 0")
    case False
    then show ?thesis using Cons p by auto
  next
    case True
    then obtain s where s: "getitem submitted m = Inr s"
      using Cons.prems p by (auto split: sum.splits)
    have "\<exists>v. calculate_improvements_loop rest submitted t (setitem acc (m @ ''_change'') v) =
            Inr imps"
      using Cons.prems p True s by (cases "t > 0") (auto simp: Let_def)
    then obtain v where
      "calculate_improvements_loop rest submitted t (setitem acc (m @ ''_change'') v) = Inr imps"
      by blast
    from Cons.IH[OF this] show ?thesis using p by (auto simp: setitem_keys)
  qed
qed

lemma realism_loop_style_keys:
  assumes "imps \<noteq> []"
    and "fst ` set imps \<subseteq> (\<lambda>m. m @ ''_change'') `
           {''percentile'', ''grade_level'', ''vocab'', ''complexity'', ''style''}"
  shows "\<exists>k. realism_loop imps c = Inl (KeyError k)"
proof -
  obtain k v rest where imps: "imps = (k, v) # rest"
    using assms(1) by (cases imps) auto
  then obtain m where m: "k = m @ ''_change''"
      "m \<in> {''percentile'', ''grade_level'', ''vocab'', ''complexity'', ''style''}"
    using assms(2) by auto
  show ?thesis using imps m(1) threshold_style_keys[OF m(2)] by simp
qed

text \<open>
  Whatever the helper methods compute, the body of \<open>compare_essays\<close> raises: the
  improvements are keyed by the five style metrics, and the realism evaluation finds none
  of them in the threshold tables.
\<close>

lemma compare_essays_try_raises: "\<exists>e. compare_essays_try h baseline submitted = Inl e"
proof -
  let ?t = "real_of_int (timedelta_days (created_at submitted) (created_at baseline)) / 365"
  let ?b = "extract_style_metrics h (content baseline)"
  let ?s = "extract_style_metrics h (content submitted)"
  show ?thesis
  proof (cases "calculate_improvements ?b ?s ?t")
    case (Inl e)
    then show ?thesis by (simp add: compare_essays_try_def Let_def)
  next
    case (Inr imps)
    have "fst ` set imps \<subseteq> (\<lambda>m. m @ ''_change'') ` set (map fst ?b)"
      using calculate_improvements_loop_keys[of ?b ?s ?t "[]" imps] Inr
      by (simp add: calculate_improvements_def)
    then have keys: "fst ` set imps \<subseteq> (\<lambda>m. m @ ''_change'') `
           {''percentile'', ''grade_level'', ''vocab'', ''complexity'', ''style''}"
      by (simp add: extract_style_metrics_keys)
    have "\<exists>e. evaluate_improvement_realism imps ?t = Inl e"
    proof (cases "imps = []")
      case True
      then show ?thesis by (simp add: evaluate_improvement_realism_def)
    next
      case False
      from realism_loop_style_keys[OF False keys, of 0]
      show ?thesis by (auto simp: evaluate_improvement_realism_def)
    qed
    then show ?thesis using Inr by (auto simp: compare_essays_try_def Let_def)
  qed
qed

lemma compare_essays_always_fallback:
  "compare_essays h baseline submitted = Inr fallback_comparison"
  using compare_essays_try_raises[of h baseline submitted]
  by (auto simp: compare_essays_def)

lemma extract_style_metrics_missing_helpers:
  "extract_style_metrics missing_helpers text = default_style_metrics"
  by (simp add: extract_style_metrics_def extract_style_metrics_try_def missing_helpers_def Let_def)

text \<open>
  Claim C10. Whenever a step of the body of \<open>compare_essays\<close> raises an exception,
  \<open>compare_essays\<close> does not raise: it returns the fixed dictionary with
  \<open>similarity_score = 0.75\<close> and \<open>ai_probability = 0.25\<close>, a probability that is not
  zero, and without improvements.
\<close>

theorem compare_essays_exception_gives_fallback:
  assumes "compare_essays_try h baseline submitted = Inl e"
  shows "compare_essays h baseline submitted = Inr (Comparison (75 / 100) (25 / 100) None) \<and>
         ai_probability (Comparison (75 / 100) (25 / 100) None) \<noteq> 0"
  using assms by (simp add: compare_essays_def fallback_comparison_def)

theorem compare_essays_exception_gives_fallback_witness:
  "compare_essays_try missing_helpers
      \<lparr>essay_id = ''test_1'', student_id = ''student_1'', content = ''A normal essay.'',
       essay_type = ''baseline'', created_at = 0, metrics = None\<rparr>
      \<lparr>essay_id = ''test_2'', student_id = ''student_1'', content = ''A different essay.'',
       essay_type = ''submitted'', created_at = 0, metrics = None\<rparr> =
     Inl (KeyError ''percentile'') \<and>
   compare_essays missing_helpers
      \<lparr>essay_id = ''test_1'', student_id = ''student_1'', content = ''A normal essay.'',
       essay_type = ''baseline'', created_at = 0, metrics = None\<rparr>
      \<lparr>essay_id = ''test_2'', student_id = ''student_1'', content = ''A different essay.'',
       essay_type = ''submitted'', created_at = 0, metrics = None\<rparr> =
     Inr (Comparison (75 / 100) (25 / 100) None)"
proof -
  let ?b = "\<lparr>essay_id = ''test_1'', student_id = ''student_1'', content = ''A normal essay.'',
       essay_type = ''baseline'', created_at = 0, metrics = None\<rparr>"
  let ?s = "\<lparr>essay_id = ''test_2'', student_id = ''student_1'', content = ''A different essay.'',
       essay_type = ''submitted'', created_at = 0, metrics = None\<rparr>"
  have raises: "compare_essays_try missing_helpers ?b ?s = Inl (KeyError ''percentile'')"
    by (simp add: compare_essays_try_def extract_style_metrics_missing_helpers
          default_style_metrics_def timedelta_days_def calculate_improvements_def getitem_def
          evaluate_improvement_realism_def threshold_def improvement_thresholds_def
          replace_style_keys)
  from compare_essays_exception_gives_fallback[OF raises] raises show ?thesis by simp
qed



section \<open>Properties of the progress service\<close>

text \<open>
  \<open>_calculate_overall_improvement\<close>, for at least two essays with the four metrics,
  baseline values that are not zero and a time span that is not zero: the writing level is
  the absolute change of the grade level per year, and the other three entries are the
  relative change times 100 per year.
\<close>

theorem overall_improvement_rates:
  assumes "length essays \<ge> 2"
    and "metrics (hd essays) = Some f" and "metrics (last essays) = Some l"
    and "map_of f ''grade_level'' = Some fg" and "map_of l ''grade_level'' = Some lg"
    and "map_of f ''vocabulary_size'' = Some fv" and "map_of l ''vocabulary_size'' = Some lv"
    and "map_of f ''sentence_complexity'' = Some fc" and "map_of l ''sentence_complexity'' = Some lc"
    and "map_of f ''style_fingerprint'' = Some fs" and "map_of l ''style_fingerprint'' = Some ls"
    and "fv \<noteq> 0" and "fc \<noteq> 0" and "fs \<noteq> 0"
    and "t = real_of_int (timedelta_days (created_at (last essays)) (created_at (hd essays))) / 365"
    and "t \<noteq> 0"
  shows "calculate_overall_improvement essays =
           Inr [(''writing_level'', (lg - fg) / t),
                (''vocabulary'', (lv - fv) / fv * 100 / t),
                (''complexity'', (lc - fc) / fc * 100 / t),
                (''style'', (ls - fs) / fs * 100 / t)]"
proof -
  let ?t = "real_of_int (timedelta_days (created_at (last essays)) (created_at (hd essays))) / 365"
  have t0: "?t \<noteq> 0" using assms(15,16) by blast
  have "calculate_overall_improvement essays =
           Inr [(''writing_level'', (lg - fg) / ?t),
                (''vocabulary'', (lv - fv) / fv * 100 / ?t),
                (''complexity'', (lc - fc) / fc * 100 / ?t),
                (''style'', (ls - fs) / fs * 100 / ?t)]"
    unfolding calculate_overall_improvement_def Let_def absolute_rate_def percent_rate_def
      and_then_def essay_metric_def getitem_def true_div_def
    using assms(1-14) t0 by simp
  then show ?thesis unfolding assms(15) .
qed

theorem overall_improvement_rates_witness:
  "calculate_overall_improvement
     [\<lparr>essay_id = ''e1'', student_id = ''s'', content = ''first'', essay_type = ''baseline'',
       created_at = 0,
       metrics = Some [(''grade_level'', 8), (''vocabulary_size'', 500),
                       (''sentence_complexity'', 2), (''style_fingerprint'', 5)]\<rparr>,
      \<lparr>essay_id = ''e2'', student_id = ''s'', content = ''last'', essay_type = ''submission'',
       created_at = 31536000000000,
       metrics = Some [(''grade_level'', 17 / 2), (''vocabulary_size'', 550),
                       (''sentence_complexity'', 11 / 5), (''style_fingerprint'', 11 / 2)]\<rparr>] =
     Inr [(''writing_level'', 1 / 2), (''vocabulary'', 10), (''complexity'', 10), (''style'', 10)]"
  using overall_improvement_rates
    [of "[\<lparr>essay_id = ''e1'', student_id = ''s'', content = ''first'', essay_type = ''baseline'',
       created_at = 0,
       metrics = Some [(''grade_level'', 8), (''vocabulary_size'', 500),
                       (''sentence_complexity'', 2), (''style_fingerprint'', 5)]\<rparr>,
      \<lparr>essay_id = ''e2'', student_id = ''s'', content = ''last'', essay_type = ''submission'',
       created_at = 31536000000000,
       metrics = Some [(''grade_level'', 17 / 2), (''vocabulary_size'', 550),
                       (''sentence_complexity'', 11 / 5), (''style_fingerprint'', 11 / 2)]\<rparr>]"
        "[(''grade_level'', 8), (''vocabulary_size'', 500),
          (''sentence_complexity'', 2), (''style_fingerprint'', 5)]"
        "[(''grade_level'', 17 / 2), (''vocabulary_size'', 550),
          (''sentence_complexity'', 11 / 5), (''style_fingerprint'', 11 / 2)]"
        8 "17 / 2" 500 550 2 "11 / 5" 5 "11 / 2" 1]
  by (simp add: timedelta_days_def)

text \<open>
  Two essays of the same day: the time span is 0 and the first division raises
  \<open>ZeroDivisionError\<close>.
\<close>

lemma overall_improvement_same_day:
  "calculate_overall_improvement
     [\<lparr>essay_id = ''e1'', student_id = ''s'', content = ''first'', essay_type = ''baseline'',
       created_at = 0, metrics = Some [(''grade_level'', 8)]\<rparr>,
      \<lparr>essay_id = ''e2'', student_id = ''s'', content = ''last'', essay_type = ''submission'',
       created_at = 3600000000, metrics = Some [(''grade_level'', 9)]\<rparr>] =
     Inl ZeroDivisionError"
  by (simp add: calculate_overall_improvement_def Let_def absolute_rate_def and_then_def
        essay_metric_def getitem_def true_div_def timedelta_days_def)

section \<open>Properties of the analysis service\<close>

subsection \<open>Validation of the length\<close>

lemma calculate_readability_returns: "\<exists>r. calculate_readability tk text = Inr r"
  by (simp add: calculate_readability_def split: sum.splits)

lemma strip_replicate_a: "strip (replicate n CHR ''a'') = replicate n CHR ''a''"
  by (simp add: strip_def isspace_def dropWhile_replicate)

lemma strip_too_short: "strip ''too short'' = ''too short''"
  by (simp add: strip_def isspace_def)

text \<open>
  Claim C5, as amended. \<open>analyze_text\<close> never raises. For a text whose stripped length
  is below 100 characters or above 10000 characters it returns the error dictionary
  holding the message of the length error, \<open>Invalid content length\<close>. For a text whose
  stripped length is between 100 and 10000 characters the length check passes, and when
  the three external analyses return, the result is the full analysis with the
  readability of the text.
\<close>

theorem analyze_text_length_error_is_returned:
  "(length (strip text) < 100 \<or> length (strip text) > 10000 \<longrightarrow>
      analyze_text tk parts text = Inr (ErrorDict (StrOf (ValueError ''Invalid content length'')))) \<and>
   (100 \<le> length (strip text) \<and> length (strip text) \<le> 10000 \<and>
    detect_ai_content parts text = Inr d \<and> analyze_writing_quality parts text = Inr q \<and>
    analyze_structure parts text = Inr s \<longrightarrow>
      (\<exists>r. calculate_readability tk text = Inr r \<and>
           analyze_text tk parts text = Inr (Result (TextAnalysis d q r s)))) \<and>
   (\<exists>res. analyze_text tk parts text = Inr res)"
proof (intro conjI impI)
  assume "length (strip text) < 100 \<or> length (strip text) > 10000"
  then show "analyze_text tk parts text = Inr (ErrorDict (StrOf (ValueError ''Invalid content length'')))"
    by (auto simp: analyze_text_def analyze_text_try_def validate_content_def min_words_def
          max_words_def Let_def)
next
  assume a: "100 \<le> length (strip text) \<and> length (strip text) \<le> 10000 \<and>
    detect_ai_content parts text = Inr d \<and> analyze_writing_quality parts text = Inr q \<and>
    analyze_structure parts text = Inr s"
  obtain r where r: "calculate_readability tk text = Inr r"
    using calculate_readability_returns by blast
  have "analyze_text tk parts text = Inr (Result (TextAnalysis d q r s))"
    using a r by (simp add: analyze_text_def analyze_text_try_def validate_content_def
         min_words_def max_words_def Let_def and_then_def)
  with r show "\<exists>r. calculate_readability tk text = Inr r \<and>
           analyze_text tk parts text = Inr (Result (TextAnalysis d q r s))" by blast
next
  show "\<exists>res. analyze_text tk parts text = Inr res"
    by (simp add: analyze_text_def split: sum.splits)
qed

theorem analyze_text_length_error_is_returned_witness:
  "length (strip ''too short'') < 100 \<and>
   analyze_text \<lparr>word_tokenize = (\<lambda>_. Inr []), sent_tokenize = (\<lambda>_. Inr [])\<rparr>
     \<lparr>detect_ai_content = (\<lambda>_. Inr ()), analyze_writing_quality = (\<lambda>_. Inr ()),
      analyze_structure = (\<lambda>_. Inr ())\<rparr> ''too short'' =
     Inr (ErrorDict (StrOf (ValueError ''Invalid content length''))) \<and>
   100 \<le> length (strip (replicate 100 CHR ''a'')) \<and>
   length (strip (replicate 100 CHR ''a'')) \<le> 10000 \<and>
   analyze_text \<lparr>word_tokenize = (\<lambda>_. Inr []), sent_tokenize = (\<lambda>_. Inr [])\<rparr>
     \<lparr>detect_ai_content = (\<lambda>_. Inr ()), analyze_writing_quality = (\<lambda>_. Inr ()),
      analyze_structure = (\<lambda>_. Inr ())\<rparr> (replicate 100 CHR ''a'') =
     Inr (Result (TextAnalysis () () (ErrorDict (Message ''No content to analyze'')) ()))"
proof -
  let ?tk = "\<lparr>word_tokenize = (\<lambda>_. Inr []), sent_tokenize = (\<lambda>_. Inr [])\<rparr>"
  let ?parts = "\<lparr>detect_ai_content = (\<lambda>_. Inr ()), analyze_writing_quality = (\<lambda>_. Inr ()),
      analyze_structure = (\<lambda>_. Inr ())\<rparr>"
  have r: "calculate_readability ?tk (replicate 100 CHR ''a'') =
             Inr (ErrorDict (Message ''No content to analyze''))"
    by (simp add: calculate_readability_def calculate_readability_try_def and_then_def)
  show ?thesis
    using analyze_text_length_error_is_returned[of "''too short''" ?tk ?parts "()" "()" "()"]
      analyze_text_length_error_is_returned[of "replicate 100 CHR ''a''" ?tk ?parts "()" "()" "()"]
      r
    by (simp add: strip_replicate_a strip_too_short)
qed

text \<open>
  Claim C5 as stated fails: for a text of nine characters no exception reaches the
  caller; the error is returned inside a dictionary.
\<close>

theorem short_text_error_not_raised:
  "analyze_text \<lparr>word_tokenize = (\<lambda>_. Inr []), sent_tokenize = (\<lambda>_. Inr [])\<rparr>
     \<lparr>detect_ai_content = (\<lambda>_. Inr ()), analyze_writing_quality = (\<lambda>_. Inr ()),
      analyze_structure = (\<lambda>_. Inr ())\<rparr> ''too short'' =
     Inr (ErrorDict (StrOf (ValueError ''Invalid content length'')))"
  by (simp add: analyze_text_def analyze_text_try_def validate_content_def min_words_def
        max_words_def strip_too_short)

subsection \<open>Readability\<close>

lemma round_half_even_bounds:
  assumes "of_int a \<le> x" and "x \<le> of_int b"
  shows "a \<le> round_half_even x \<and> round_half_even x \<le> b"
proof -
  have lo: "a \<le> \<lfloor>x\<rfloor>" using assms(1) by (simp add: le_floor_iff)
  show ?thesis
  proof (cases "x = of_int b")
    case True
    then show ?thesis using lo by (simp add: round_half_even_def)
  next
    case False
    then have "x < of_int b" using assms(2) by simp
    then have "\<lfloor>x\<rfloor> < b" by (simp add: floor_less_iff)
    then show ?thesis using lo by (auto simp: round_half_even_def Let_def)
  qed
qed

lemma py_round_clamped:
  assumes "0 \<le> x" and "x \<le> 12"
  shows "0 \<le> py_round x 1 \<and> py_round x 1 \<le> 12"
proof -
  have "of_int 0 \<le> x * 10" and "x * 10 \<le> of_int 120" using assms by simp_all
  from round_half_even_bounds[OF this]
  have "0 \<le> round_half_even (x * 10)" "round_half_even (x * 10) \<le> 120" by simp_all
  then have "0 \<le> (of_int (round_half_even (x * 10)) :: real)"
    "(of_int (round_half_even (x * 10)) :: real) \<le> 120" by linarith+
  then show ?thesis by (simp add: py_round_def)
qed
lemma analyze_readability_returns: "\<exists>r. analyze_readability tk text = Inr r"
  by (simp add: analyze_readability_def split: sum.splits)
lemma count_syllables_examples:
  "count_syllables ''The'' = 1" "count_syllables ''cat'' = 1"
  "count_syllables ''sat'' = 1" "count_syllables ''.'' = 1"
  by code_simp+

lemma calculate_readability_example:
  "calculate_readability \<lparr>word_tokenize = (\<lambda>_. Inr [''The'', ''cat'', ''sat'', ''.'']),
      sent_tokenize = (\<lambda>_. Inr [''The cat sat.''])\<rparr> ''The cat sat.'' =
     Inr (Result (Readability 0 1 4))"
  by (simp add: calculate_readability_def calculate_readability_try_def and_then_def
       count_syllables_examples py_round_def round_half_even_def Let_def)

text \<open>
  Claim C6, as amended. For every text, \<open>_calculate_readability\<close> and
  \<open>_analyze_readability\<close> return without raising. When the text has no words or no
  sentences, \<open>_calculate_readability\<close> returns the error dictionary
  \<open>No content to analyze\<close>, with no average sentence length and no grade level, and
  \<open>_analyze_readability\<close> returns the score 0 and the grade level 0. Every grade level
  that \<open>_calculate_readability\<close> returns lies between 0 and 12.
\<close>

theorem readability_guarded:
  "(\<exists>r. calculate_readability tk text = Inr r) \<and>
   (\<exists>r. analyze_readability tk text = Inr r) \<and>
   (word_tokenize tk text = Inr ws \<and> sent_tokenize tk text = Inr ss \<and> (ws = [] \<or> ss = []) \<longrightarrow>
      calculate_readability tk text = Inr (ErrorDict (Message ''No content to analyze'')) \<and>
      analyze_readability tk text = Inr (ReadabilityAnalysis 0 0 None None)) \<and>
   (calculate_readability tk text = Inr (Result r) \<longrightarrow> 0 \<le> grade_level r \<and> grade_level r \<le> 12)"
proof (intro conjI impI)
  show "\<exists>r. calculate_readability tk text = Inr r" by (rule calculate_readability_returns)
  show "\<exists>r. analyze_readability tk text = Inr r" by (rule analyze_readability_returns)
next
  assume a: "word_tokenize tk text = Inr ws \<and> sent_tokenize tk text = Inr ss \<and> (ws = [] \<or> ss = [])"
  then show "calculate_readability tk text = Inr (ErrorDict (Message ''No content to analyze''))"
    by (auto simp: calculate_readability_def calculate_readability_try_def and_then_def)
  from a show "analyze_readability tk text = Inr (ReadabilityAnalysis 0 0 None None)"
    by (auto simp: analyze_readability_def analyze_readability_try_def and_then_def)
next
  assume r: "calculate_readability tk text = Inr (Result r)"
  then obtain g a b where "r = Readability (py_round (max 0 (min g 12)) 1) a b"
    by (auto simp: calculate_readability_def calculate_readability_try_def and_then_def Let_def
          split: sum.splits if_splits)
  moreover have "0 \<le> max 0 (min g 12)" "max 0 (min g 12) \<le> 12" by simp_all
  ultimately show "0 \<le> grade_level r" "grade_level r \<le> 12"
    using py_round_clamped[of "max 0 (min g 12)"] by simp_all
qed

theorem readability_guarded_witness:
  "word_tokenize \<lparr>word_tokenize = (\<lambda>_. Inr [''word'']), sent_tokenize = (\<lambda>_. Inr [])\<rparr> ''word'' =
     Inr [''word''] \<and>
   sent_tokenize \<lparr>word_tokenize = (\<lambda>_. Inr [''word'']), sent_tokenize = (\<lambda>_. Inr [])\<rparr> ''word'' =
     Inr [] \<and>
   calculate_readability \<lparr>word_tokenize = (\<lambda>_. Inr [''word'']), sent_tokenize = (\<lambda>_. Inr [])\<rparr>
     ''word'' = Inr (ErrorDict (Message ''No content to analyze'')) \<and>
   analyze_readability \<lparr>word_tokenize = (\<lambda>_. Inr [''word'']), sent_tokenize = (\<lambda>_. Inr [])\<rparr>
     ''word'' = Inr (ReadabilityAnalysis 0 0 None None) \<and>
   calculate_readability \<lparr>word_tokenize = (\<lambda>_. Inr [''The'', ''cat'', ''sat'', ''.'']),
      sent_tokenize = (\<lambda>_. Inr [''The cat sat.''])\<rparr> ''The cat sat.'' =
     Inr (Result (Readability 0 1 4)) \<and>
   0 \<le> grade_level (Readability 0 1 4) \<and> grade_level (Readability 0 1 4) \<le> 12"
  using readability_guarded
      [of "\<lparr>word_tokenize = (\<lambda>_. Inr [''word'']), sent_tokenize = (\<lambda>_. Inr [])\<rparr>" "''word''"
          "[''word'']" "[]" "Readability 0 1 4"]
    readability_guarded
      [of "\<lparr>word_tokenize = (\<lambda>_. Inr [''The'', ''cat'', ''sat'', ''.'']),
             sent_tokenize = (\<lambda>_. Inr [''The cat sat.''])\<rparr>" "''The cat sat.''"
          "[''The'', ''cat'', ''sat'', ''.'']" "[''The cat sat.'']" "Readability 0 1 4"]
    calculate_readability_example
  by simp

text \<open>
  Claim C6 as stated fails: for a text of one word and no sentence the readability
  computation returns an error dictionary, not an average sentence length of 0 and a
  grade level.
\<close>

theorem one_word_no_sentence_gives_error_dict:
  "calculate_readability \<lparr>word_tokenize = (\<lambda>_. Inr [''word'']), sent_tokenize = (\<lambda>_. Inr [])\<rparr>
      ''word'' = Inr (ErrorDict (Message ''No content to analyze''))"
  by (simp add: calculate_readability_def calculate_readability_try_def and_then_def)

text \<open>
  The grade level of \<open>_analyze_readability\<close> is rounded but not clamped: two one-letter
  words in one sentence give -10.5.
\<close>

lemma calculate_avg_syllables_example: "calculate_avg_syllables [''a'', ''b'', ''.''] = 1 / 3"
  by code_simp

lemma analyze_readability_unclamped_example:
  "analyze_readability \<lparr>word_tokenize = (\<lambda>_. Inr [''a'', ''b'', ''.'']),
      sent_tokenize = (\<lambda>_. Inr [''a b.''])\<rparr> ''a b.'' =
    Inr (ReadabilityAnalysis (- 1049 / 100) (- 21 / 2) (Some 3) (Some (33 / 100)))"
  by (simp add: analyze_readability_def analyze_readability_try_def and_then_def
       calculate_avg_syllables_example py_round_def round_half_even_def Let_def)

section \<open>Properties of the student and class services\<close>

subsection \<open>The baseline\<close>

lemma sum_list_map_mset:
  fixes f :: "'a \<Rightarrow> real"
  assumes "mset xs = mset ys"
  shows "sum_list (map f xs) = sum_list (map f ys)"
proof -
  have "sum_list (map f xs) = sum_mset (image_mset f (mset xs))"
    by (metis mset_map sum_mset_sum_list)
  also have "\<dots> = sum_mset (image_mset f (mset ys))" using assms by simp
  also have "\<dots> = sum_list (map f ys)" by (metis mset_map sum_mset_sum_list)
  finally show ?thesis .
qed

text \<open>
  Claim C7. For every non-empty list of analysed essays and every permutation of it, the
  baseline builder returns the same baseline metrics: for each metric the arithmetic mean
  of the essays' values.
\<close>

theorem baseline_mean_order_independent:
  assumes "mset analyses' = mset analyses" and "analyses \<noteq> []"
  shows "baseline_builder analyses' = baseline_builder analyses \<and>
         baseline_builder analyses =
           Inr (\<lambda>m. sum_list (map (\<lambda>v. v m) analyses) / real (length analyses))"
proof -
  have ne: "analyses' \<noteq> []" using assms by auto
  have len: "length analyses' = length analyses" using assms(1) by (rule mset_eq_length)
  have "calculate_average_metrics analyses' = calculate_average_metrics analyses"
    unfolding calculate_average_metrics_def
    using sum_list_map_mset[OF assms(1)] len by simp
  then show ?thesis using ne assms(2)
    by (simp add: baseline_builder_def calculate_average_metrics_def)
qed

theorem baseline_mean_order_independent_witness:
  "[(\<lambda>m. 10), (\<lambda>m. if m = GradeLevel then 8 else 500), (\<lambda>m. 2 :: real)] \<noteq> [] \<and>
   baseline_builder [(\<lambda>m. 2), (\<lambda>m. 10), (\<lambda>m. if m = GradeLevel then 8 else 500)] =
   baseline_builder [(\<lambda>m. 10), (\<lambda>m. if m = GradeLevel then 8 else 500), (\<lambda>m. 2)] \<and>
   baseline_builder [(\<lambda>m. 10), (\<lambda>m. if m = GradeLevel then 8 else 500), (\<lambda>m. 2)] =
     Inr (\<lambda>m. if m = GradeLevel then 20 / 3 else 512 / 3)"
proof -
  let ?xs = "[(\<lambda>m::metric_name. 10 :: real), (\<lambda>m. if m = GradeLevel then 8 else 500), (\<lambda>m. 2)]"
  let ?ys = "[(\<lambda>m::metric_name. 2 :: real), (\<lambda>m. 10), (\<lambda>m. if m = GradeLevel then 8 else 500)]"
  have p: "mset ?ys = mset ?xs" by simp
  have n: "?xs \<noteq> []" by simp
  have v: "(\<lambda>m. sum_list (map (\<lambda>v. v m) ?xs) / real (length ?xs)) =
           (\<lambda>m. if m = GradeLevel then 20 / 3 else 512 / 3)"
    by (rule ext) simp
  from baseline_mean_order_independent[OF p n] show ?thesis
    unfolding v by simp
qed

subsection \<open>Trends\<close>

lemma covariance_self: "covariance xs xs = sum_list (map (\<lambda>x. (x - mean xs) * (x - mean xs)) xs) / real (length xs)"
  by (simp add: covariance_def mean_def zip_same_conv_map comp_def)

lemma covariance_arange_nonzero:
  assumes "n \<ge> 2"
  shows "covariance (arange n) (arange n) \<noteq> 0"
proof
  let ?xs = "arange n"
  let ?mu = "mean ?xs"
  assume "covariance ?xs ?xs = 0"
  moreover have len: "length ?xs = n" by (simp add: arange_def)
  ultimately have s0: "sum_list (map (\<lambda>x. (x - ?mu) * (x - ?mu)) ?xs) = 0"
    using assms by (simp add: covariance_self)
  have "\<forall>y \<in> set (map (\<lambda>x. (x - ?mu) * (x - ?mu)) ?xs). y = 0"
    using s0 by (subst (asm) sum_list_nonneg_eq_0_iff) auto
  then have all: "\<forall>x \<in> set ?xs. x = ?mu" by auto
  have "(0::real) \<in> set ?xs" and "(1::real) \<in> set ?xs"
    using assms by (auto simp: arange_def image_iff intro: bexI[of _ 0] bexI[of _ 1])
  with all have "(0::real) = ?mu" "(1::real) = ?mu" by blast+
  then show False by simp
qed

lemma linregress_arange:
  assumes "length vals \<ge> 2"
  shows "linregress (arange (length vals)) vals =
           Inr (ols_slope (arange (length vals)) vals, pearson_r (arange (length vals)) vals)"
  using assms covariance_arange_nonzero[OF assms]
  by (simp add: linregress_def arange_def)

lemma student_trend_loop_result:
  "\<exists>trends. student_trend_loop ms essays acc = Inr trends \<and>
     (\<forall>m. map_of trends m =
        (if m \<in> set ms \<and> length (metric_values essays m) \<ge> 3
         then Some (ols_slope (arange (length (metric_values essays m))) (metric_values essays m) *
                    pearson_r (arange (length (metric_values essays m))) (metric_values essays m))
         else map_of acc m))"
proof (induction ms arbitrary: acc)
  case Nil
  show ?case by simp
next
  case (Cons metric rest)
  let ?vals = "metric_values essays metric"
  show ?case
  proof (cases "length ?vals \<ge> 3")
    case False
    then show ?thesis using Cons[of acc] by (auto simp: Let_def)
  next
    case True
    then have lr: "linregress (arange (length ?vals)) ?vals =
           Inr (ols_slope (arange (length ?vals)) ?vals, pearson_r (arange (length ?vals)) ?vals)"
      by (intro linregress_arange) simp
    let ?acc = "setitem acc metric (ols_slope (arange (length ?vals)) ?vals *
                    pearson_r (arange (length ?vals)) ?vals)"
    from Cons[of ?acc] obtain trends where
      t: "student_trend_loop rest essays ?acc = Inr trends"
      and m: "\<forall>m. map_of trends m =
        (if m \<in> set rest \<and> length (metric_values essays m) \<ge> 3
         then Some (ols_slope (arange (length (metric_values essays m))) (metric_values essays m) *
                    pearson_r (arange (length (metric_values essays m))) (metric_values essays m))
         else map_of ?acc m)" by blast
    have "student_trend_loop (metric # rest) essays acc = Inr trends"
      using True lr t by (simp add: Let_def)
    moreover have "\<forall>m. map_of trends m =
        (if m \<in> set (metric # rest) \<and> length (metric_values essays m) \<ge> 3
         then Some (ols_slope (arange (length (metric_values essays m))) (metric_values essays m) *
                    pearson_r (arange (length (metric_values essays m))) (metric_values essays m))
         else map_of acc m)"
      using m True by (auto simp: map_of_setitem)
    ultimately show ?thesis by blast
  qed
qed
lemma arange_3: "arange (Suc (Suc (Suc 0))) = [0, 1, 2]"
  by (simp add: arange_def upt_rec)

lemma sqrt_4_9: "sqrt (4 / 9) = 2 / 3"
  by (rule real_sqrt_unique) (simp_all add: power2_eq_square)

lemma trend_example: "ols_slope [0, 1, 2] [1, 3, 2] * pearson_r [0, 1, 2] [1, 3, 2] = 1 / 4"
  by (simp add: ols_slope_def pearson_r_def covariance_def mean_def sqrt_4_9)

lemma metric_values_example:
  "metric_values [\<lparr>analysis = Some [(''grade_level'', 1)]\<rparr>,
           \<lparr>analysis = Some [(''grade_level'', 3)]\<rparr>, \<lparr>analysis = None\<rparr>,
           \<lparr>analysis = Some [(''grade_level'', 2), (''coherence'', 1 / 2)]\<rparr>] ''grade_level'' =
     [1, 3, 2]"
  by (simp add: metric_values_def)

text \<open>
  Claim C8. When at least three of a student's essays carry a tracked metric, the trend
  that \<open>_calculate_student_trend\<close> returns for the metric is the least-squares slope of
  the values against their index 0, 1, 2, ... multiplied by the correlation coefficient.
  When fewer than three previous essays exist, \<open>_analyze_trends\<close> raises nothing and
  returns the marker \<open>{"sufficient_data": False}\<close>.
\<close>

theorem trend_is_slope_times_r_and_marker:
  "(metric \<in> set settings_metrics \<and> length (metric_values essays metric) \<ge> 3 \<longrightarrow>
      (\<exists>trends. calculate_student_trend essays = Inr trends \<and>
         map_of trends metric =
           Some (ols_slope (arange (length (metric_values essays metric))) (metric_values essays metric) *
                 pearson_r (arange (length (metric_values essays metric))) (metric_values essays metric)))) \<and>
   (length previous_essays < 3 \<longrightarrow> analyze_trends previous_essays new_analysis = Inr InsufficientData)"
proof -
  obtain trends where t: "student_trend_loop settings_metrics essays [] = Inr trends"
    and m: "\<forall>m. map_of trends m =
        (if m \<in> set settings_metrics \<and> length (metric_values essays m) \<ge> 3
         then Some (ols_slope (arange (length (metric_values essays m))) (metric_values essays m) *
                    pearson_r (arange (length (metric_values essays m))) (metric_values essays m))
         else map_of [] m)"
    using student_trend_loop_result[of settings_metrics essays "[]"] by blast
  have "calculate_student_trend essays = Inr trends"
    using t by (simp add: calculate_student_trend_def)
  then show ?thesis using m by (auto simp: analyze_trends_def min_essays_for_trend_def)
qed

theorem trend_is_slope_times_r_and_marker_witness:
  "''grade_level'' \<in> set settings_metrics \<and>
   length (metric_values [\<lparr>analysis = Some [(''grade_level'', 1)]\<rparr>,
           \<lparr>analysis = Some [(''grade_level'', 3)]\<rparr>, \<lparr>analysis = None\<rparr>,
           \<lparr>analysis = Some [(''grade_level'', 2), (''coherence'', 1 / 2)]\<rparr>] ''grade_level'') \<ge> 3 \<and>
   (\<exists>trends. calculate_student_trend [\<lparr>analysis = Some [(''grade_level'', 1)]\<rparr>,
           \<lparr>analysis = Some [(''grade_level'', 3)]\<rparr>, \<lparr>analysis = None\<rparr>,
           \<lparr>analysis = Some [(''grade_level'', 2), (''coherence'', 1 / 2)]\<rparr>] = Inr trends \<and>
      map_of trends ''grade_level'' = Some (1 / 4)) \<and>
   length [\<lparr>analysis = Some [(''grade_level'', 1)]\<rparr>, \<lparr>analysis = None\<rparr>] < 3 \<and>
   analyze_trends [\<lparr>analysis = Some [(''grade_level'', 1)]\<rparr>, \<lparr>analysis = None\<rparr>]
     [(''grade_level'', 2)] = Inr InsufficientData"
  using trend_is_slope_times_r_and_marker
    [of "''grade_level''"
        "[\<lparr>analysis = Some [(''grade_level'', 1)]\<rparr>,
           \<lparr>analysis = Some [(''grade_level'', 3)]\<rparr>, \<lparr>analysis = None\<rparr>,
           \<lparr>analysis = Some [(''grade_level'', 2), (''coherence'', 1 / 2)]\<rparr>]"
        "[\<lparr>analysis = Some [(''grade_level'', 1)]\<rparr>, \<lparr>analysis = None\<rparr>]"
        "[(''grade_level'', 2)]"]
  by (simp add: metric_values_example arange_3 trend_example settings_metrics_def)

subsection \<open>Small classes\<close>

text \<open>
  Claim C9, as amended. For every existing class with fewer than five students,
  \<open>analyze_class_progress\<close> returns only the error dictionary
  \<open>Insufficient students for reliable analysis\<close>: no statistics of any kind are computed
  or returned, and no analysis is stored.
\<close>

theorem small_class_gets_only_error:
  assumes "get_class env class_id = Inr (Some c)"
    and "get_class_students env class_id = Inr students"
    and "length students < 5"
  shows "analyze_class_progress env class_id stored =
           Inr (ClassError ''Insufficient students for reliable analysis'', stored)"
  using assms
  by (simp add: analyze_class_progress_def analyze_class_progress_try_def and_then_def
        min_students_def)

theorem small_class_gets_only_error_witness:
  "length [''s1'', ''s2'', ''s3'', ''s4''] < 5 \<and>
   analyze_class_progress
     \<lparr>get_class = (\<lambda>_. Inr (Some ())), get_class_students = (\<lambda>_. Inr [''s1'', ''s2'', ''s3'', ''s4'']),
      analyze_student_progress = (\<lambda>_. Some ()), class_analysis = (\<lambda>_ ps. Inr (length ps))\<rparr>
     ''class_1'' [7] =
     Inr (ClassError ''Insufficient students for reliable analysis'', [7])"
  using small_class_gets_only_error
    [of "\<lparr>get_class = (\<lambda>_. Inr (Some ())), get_class_students = (\<lambda>_. Inr [''s1'', ''s2'', ''s3'', ''s4'']),
      analyze_student_progress = (\<lambda>_. Some ()), class_analysis = (\<lambda>_ ps. Inr (length ps))\<rparr>"
        "''class_1''" "()" "[''s1'', ''s2'', ''s3'', ''s4'']" "[7]"]
  by simp

text \<open>
  Claim C9 as stated fails: for a class of four students whose analysis would succeed,
  the result holds no per-metric statistics, only the error dictionary.
\<close>

theorem four_students_no_statistics:
  "analyze_class_progress
     \<lparr>get_class = (\<lambda>_. Inr (Some ())), get_class_students = (\<lambda>_. Inr [''s1'', ''s2'', ''s3'', ''s4'']),
      analyze_student_progress = (\<lambda>_. Some ()), class_analysis = (\<lambda>_ ps. Inr (length ps))\<rparr>
     ''class_1'' [] =
     Inr (ClassError ''Insufficient students for reliable analysis'', [])"
  by (simp add: analyze_class_progress_def analyze_class_progress_try_def and_then_def
        min_students_def)

end
